theory Spec2Isabelle
  imports Main
begin

section \<open>Data model\<close>

text \<open>
  The service of \<^verbatim>\<open>src/index.js\<close>: an Express application that signs users in by
  password or by a Google identity assertion, hands out a pair of JSON web tokens in
  cookies, and renews the access token from the refresh token.  The handlers are
  modelled as functions of the request, the clock (\<^verbatim>\<open>Date.now()\<close>, in milliseconds)
  and the \<^verbatim>\<open>users\<close> table; each returns the response and the table it leaves.
\<close>

subsection \<open>Token payloads and tokens\<close>

text \<open>
  A token payload is a JSON object: the keys in the order they were written, each with
  a number or a string.
\<close>

datatype jval = JNum nat | JStr string

type_synonym payload = "(string \<times> jval) list"

text \<open>
  Tokens are opaque strings to the handlers.  A string is either a well-formed token,
  a payload together with the secret its signature was computed with, or anything
  else; the empty string is the only string that JavaScript's \<^verbatim>\<open>!token\<close> treats like
  a missing cookie.
\<close>

datatype token = Signed payload string | Garbage string

datatype error =
    JsonWebTokenError
  | TokenExpiredError
  | TypeError
  | QueryError
  | VerifyIdTokenError
  | BcryptError

subsection \<open>Configuration, rows of the users table, responses\<close>

text \<open>The three values read from \<^verbatim>\<open>process.env\<close> by the live code.\<close>

record config =
  JWT_SECRET :: string
  REFRESH_TOKEN_SECRET :: string
  GOOGLE_CLIENT_ID :: string

text \<open>
  A row of \<^verbatim>\<open>users\<close>, with the columns the queries name.  \<^verbatim>\<open>password_hash\<close> and
  \<^verbatim>\<open>google_id\<close> are \<open>None\<close> for SQL \<^verbatim>\<open>NULL\<close>.
\<close>

record user =
  user_id :: nat
  name :: string
  email :: string
  password_hash :: "string option"
  google_id :: "string option"

text \<open>
  The table in insertion order, the next value of the \<^verbatim>\<open>id\<close> sequence, and a
  script of repository outages: the head says whether the next \<^verbatim>\<open>pool.query\<close>
  rejects; an exhausted script means that every further query is answered.
\<close>

record world =
  users :: "user list"
  next_id :: nat
  outages :: "bool list"

text \<open>
  What a handler sends: the status, the \<^verbatim>\<open>message\<close> of the JSON body, the
  \<^verbatim>\<open>user\<close> summary \<^verbatim>\<open>{id, name, email}\<close> when the body has one, and the cookies set.
\<close>

record response =
  status :: nat
  message :: string
  user_info :: "(nat \<times> string \<times> string) option"
  cookies :: "(string \<times> token) list"

definition json :: "nat \<Rightarrow> string \<Rightarrow> response" where
  "json st msg = \<lparr>status = st, message = msg, user_info = None, cookies = []\<rparr>"

section \<open>The jsonwebtoken calls\<close>

text \<open>
  Modelled from the spec: \<^verbatim>\<open>jwt.sign\<close> and \<^verbatim>\<open>jwt.verify\<close> belong to the
  \<^verbatim>\<open>jsonwebtoken\<close> package, which is imported by \<^verbatim>\<open>src/index.js\<close> and is not part of
  the sources.  Section 4.1 of the specification gives their contract: minting signs
  the claim with a secret and embeds an absolute expiry a fixed time after the mint
  time; verification fails if the signature is invalid, the payload is malformed, or
  the current time has reached the expiry, with no grace window.  Signatures are
  symbolic: a signature made with one secret verifies under that secret only.  Token
  times are whole seconds, \<^verbatim>\<open>Math.floor(Date.now() / 1000)\<close>; \<open>expiresIn\<close> is the
  lifetime in seconds.  The secrets are taken to be configured.
\<close>

definition jwt_sign :: "payload \<Rightarrow> string \<Rightarrow> nat \<Rightarrow> nat \<Rightarrow> token" where
  "jwt_sign p secret expiresIn now =
     Signed (p @ [(''iat'', JNum (now div 1000)),
                  (''exp'', JNum (now div 1000 + expiresIn))]) secret"

fun jwt_verify :: "token \<Rightarrow> string \<Rightarrow> nat \<Rightarrow> error + payload" where
  "jwt_verify (Garbage s) secret now = Inl JsonWebTokenError"
| "jwt_verify (Signed p k) secret now =
     (if k = secret then
        (case map_of p ''exp'' of
           None \<Rightarrow> Inr p
         | Some (JStr s) \<Rightarrow> Inl JsonWebTokenError
         | Some (JNum e) \<Rightarrow> if e \<le> now div 1000 then Inl TokenExpiredError else Inr p)
      else Inl JsonWebTokenError)"

section \<open>JWT helper functions\<close>

text \<open>\<^verbatim>\<open>expiresIn: "15m"\<close> and \<^verbatim>\<open>expiresIn: "7d"\<close>, in seconds.\<close>

definition expires_15m :: nat where
  "expires_15m = 15 * 60"

definition expires_7d :: nat where
  "expires_7d = 7 * 24 * 60 * 60"

definition createAccessToken :: "config \<Rightarrow> user \<Rightarrow> nat \<Rightarrow> token" where
  "createAccessToken cfg u now =
     jwt_sign [(''id'', JNum (user_id u)), (''email'', JStr (email u)), (''name'', JStr (name u))]
       (JWT_SECRET cfg) expires_15m now"

definition createRefreshToken :: "config \<Rightarrow> user \<Rightarrow> nat \<Rightarrow> token" where
  "createRefreshToken cfg u now =
     jwt_sign [(''id'', JNum (user_id u))] (REFRESH_TOKEN_SECRET cfg) expires_7d now"

text \<open>
  JavaScript's \<^verbatim>\<open>!token\<close> on a cookie value: true for a missing cookie and for the
  empty string.
\<close>

fun falsy :: "token option \<Rightarrow> bool" where
  "falsy None = True"
| "falsy (Some (Garbage s)) = (s = [])"
| "falsy (Some (Signed p k)) = False"

text \<open>
  The middleware \<^verbatim>\<open>verifyAccessToken\<close>: \<open>Inl\<close> is the response it sends itself,
  \<open>Inr\<close> is \<^verbatim>\<open>req.user\<close> when it calls \<^verbatim>\<open>next()\<close>.
\<close>

definition verifyAccessToken :: "config \<Rightarrow> token option \<Rightarrow> nat \<Rightarrow> response + payload" where
  "verifyAccessToken cfg accessToken now =
     (if falsy accessToken then Inl (json 401 ''Unauthorized'')
      else case accessToken of
        None \<Rightarrow> Inl (json 401 ''Unauthorized'')
      | Some t \<Rightarrow>
          (case jwt_verify t (JWT_SECRET cfg) now of
             Inr decoded \<Rightarrow> Inr decoded
           | Inl e \<Rightarrow> Inl (json 401 ''Invalid or expired token'')))"

section \<open>The repository\<close>

text \<open>
  The SQL statements of the handlers.  \<^verbatim>\<open>SelectById\<close> takes \<^verbatim>\<open>decoded.id\<close> as it
  is read from a payload, which may lack the key.
\<close>

datatype query =
    SelectByGoogleId string
  | SelectByEmail string
  | SelectById "jval option"
  | UpdateGoogleId string nat
  | InsertGoogle string string string

text \<open>
  A statement that is answered: the rows it returns and the table it leaves.  A
  \<^verbatim>\<open>SELECT\<close> returns the matching rows in table order, the \<^verbatim>\<open>UPDATE\<close> returns no
  rows, the \<^verbatim>\<open>INSERT ... RETURNING *\<close> returns the new row, whose \<^verbatim>\<open>id\<close> comes from
  the sequence and whose \<^verbatim>\<open>password_hash\<close> is left \<^verbatim>\<open>NULL\<close>.
\<close>

fun run_query :: "query \<Rightarrow> world \<Rightarrow> user list \<times> world" where
  "run_query (SelectByGoogleId g) w = (filter (\<lambda>u. google_id u = Some g) (users w), w)"
| "run_query (SelectByEmail e) w = (filter (\<lambda>u. email u = e) (users w), w)"
| "run_query (SelectById v) w = (filter (\<lambda>u. v = Some (JNum (user_id u))) (users w), w)"
| "run_query (UpdateGoogleId g i) w =
     ([], w\<lparr>users := map (\<lambda>u. if user_id u = i then u\<lparr>google_id := Some g\<rparr> else u) (users w)\<rparr>)"
| "run_query (InsertGoogle n e g) w =
     ([\<lparr>user_id = next_id w, name = n, email = e, password_hash = None, google_id = Some g\<rparr>],
      w\<lparr>users := users w @
            [\<lparr>user_id = next_id w, name = n, email = e, password_hash = None, google_id = Some g\<rparr>],
        next_id := Suc (next_id w)\<rparr>)"

text \<open>\<^verbatim>\<open>await pool.query(...)\<close>: rejects when the outage script says so.\<close>

fun pool_query :: "query \<Rightarrow> world \<Rightarrow> (error + user list) \<times> world" where
  "pool_query q w =
     (case outages w of
        [] \<Rightarrow> (Inr (fst (run_query q w)), snd (run_query q w))
      | b # bs \<Rightarrow>
          if b then (Inl QueryError, w\<lparr>outages := bs\<rparr>)
          else (Inr (fst (run_query q (w\<lparr>outages := bs\<rparr>))), snd (run_query q (w\<lparr>outages := bs\<rparr>))))"

section \<open>Handlers\<close>

text \<open>
  The last lines of the three sign-in handlers: both tokens are minted for the row,
  set as cookies, and the body carries the message and the summary of the row.  Both
  tokens are minted at the same reading of the clock.
\<close>

definition session_response :: "string \<Rightarrow> config \<Rightarrow> user \<Rightarrow> nat \<Rightarrow> response" where
  "session_response msg cfg u now =
     \<lparr>status = 200, message = msg,
      user_info = Some (user_id u, name u, email u),
      cookies = [(''accessToken'', createAccessToken cfg u now),
                 (''refreshToken'', createRefreshToken cfg u now)]\<rparr>"

subsection \<open>Signin\<close>

text \<open>
  \<^verbatim>\<open>bcrypt.compare\<close> is the password capability of the deployment and is a
  parameter: given the password and the stored hash it answers whether they match, or
  rejects.  \<open>signin_try\<close> is the body of the \<^verbatim>\<open>try\<close> block, \<open>Inl\<close> for an exception
  that reaches the \<^verbatim>\<open>catch\<close>.
\<close>

definition signin_try ::
  "(string \<Rightarrow> string option \<Rightarrow> error + bool) \<Rightarrow> config \<Rightarrow> string \<Rightarrow> string \<Rightarrow> nat \<Rightarrow> world
     \<Rightarrow> (error + response) \<times> world" where
  "signin_try bcrypt_compare cfg em password now w =
     (case pool_query (SelectByEmail em) w of
        (Inl e, w1) \<Rightarrow> (Inl e, w1)
      | (Inr userResult, w1) \<Rightarrow>
          (case userResult of
             [] \<Rightarrow> (Inr (json 400 ''Invalid email or password''), w1)
           | u # rest \<Rightarrow>
               (case bcrypt_compare password (password_hash u) of
                  Inl e \<Rightarrow> (Inl e, w1)
                | Inr isMatch \<Rightarrow>
                    if isMatch then (Inr (session_response ''Login successful'' cfg u now), w1)
                    else (Inr (json 400 ''Invalid email or password''), w1))))"

definition signin ::
  "(string \<Rightarrow> string option \<Rightarrow> error + bool) \<Rightarrow> config \<Rightarrow> string \<Rightarrow> string \<Rightarrow> nat \<Rightarrow> world
     \<Rightarrow> response \<times> world" where
  "signin bcrypt_compare cfg em password now w =
     (case signin_try bcrypt_compare cfg em password now w of
        (Inl e, w1) \<Rightarrow> (json 500 ''Server error'', w1)
      | (Inr r, w1) \<Rightarrow> (r, w1))"

subsection \<open>Google sign-in\<close>

text \<open>The fields the handler reads from the payload of a verified Google ticket.\<close>

record id_payload =
  sub :: string
  payload_email :: string
  payload_name :: string

text \<open>
  Step 2 and 3 of the handler (lines 128 to 147), the account resolution: look the
  user up by \<^verbatim>\<open>google_id\<close>; if there is none, by \<^verbatim>\<open>email\<close>, and link the Google id
  to the row found; if there is none either, insert a new row.  The result is the
  handler's variable \<^verbatim>\<open>user\<close>: in the linking branch that is the row as it was
  selected, before the \<^verbatim>\<open>UPDATE\<close>.  An \<^verbatim>\<open>INSERT\<close> that returned no row would leave
  \<^verbatim>\<open>user\<close> undefined and the next statement, which reads \<^verbatim>\<open>user.id\<close>, would throw.
\<close>

definition resolve_external :: "id_payload \<Rightarrow> world \<Rightarrow> (error + user) \<times> world" where
  "resolve_external p w =
     (case pool_query (SelectByGoogleId (sub p)) w of
        (Inl e, w1) \<Rightarrow> (Inl e, w1)
      | (Inr userResult, w1) \<Rightarrow>
          (case userResult of
             u # rest \<Rightarrow> (Inr u, w1)
           | [] \<Rightarrow>
               (case pool_query (SelectByEmail (payload_email p)) w1 of
                  (Inl e, w2) \<Rightarrow> (Inl e, w2)
                | (Inr emailResult, w2) \<Rightarrow>
                    (case emailResult of
                       u # rest \<Rightarrow>
                         (case pool_query (UpdateGoogleId (sub p) (user_id u)) w2 of
                            (Inl e, w3) \<Rightarrow> (Inl e, w3)
                          | (Inr r, w3) \<Rightarrow> (Inr u, w3))
                     | [] \<Rightarrow>
                         (case pool_query
                                 (InsertGoogle (payload_name p) (payload_email p) (sub p)) w2 of
                            (Inl e, w3) \<Rightarrow> (Inl e, w3)
                          | (Inr insertResult, w3) \<Rightarrow>
                              (case insertResult of
                                 [] \<Rightarrow> (Inl TypeError, w3)
                               | u # rest \<Rightarrow> (Inr u, w3)))))))"

text \<open>
  \<^verbatim>\<open>googleClient.verifyIdToken\<close> is the external verification capability and is a
  parameter: given the assertion and the audience it returns the payload of the
  ticket, or rejects.
\<close>

definition auth_google_try ::
  "(string \<Rightarrow> string \<Rightarrow> error + id_payload) \<Rightarrow> config \<Rightarrow> string \<Rightarrow> nat \<Rightarrow> world
     \<Rightarrow> (error + response) \<times> world" where
  "auth_google_try verifyIdToken cfg idToken now w =
     (case verifyIdToken idToken (GOOGLE_CLIENT_ID cfg) of
        Inl e \<Rightarrow> (Inl e, w)
      | Inr p \<Rightarrow>
          (case resolve_external p w of
             (Inl e, w1) \<Rightarrow> (Inl e, w1)
           | (Inr u, w1) \<Rightarrow> (Inr (session_response ''Google login successful'' cfg u now), w1)))"

definition auth_google ::
  "(string \<Rightarrow> string \<Rightarrow> error + id_payload) \<Rightarrow> config \<Rightarrow> string \<Rightarrow> nat \<Rightarrow> world
     \<Rightarrow> response \<times> world" where
  "auth_google verifyIdToken cfg idToken now w =
     (case auth_google_try verifyIdToken cfg idToken now w of
        (Inl e, w1) \<Rightarrow> (json 401 ''Google authentication failed'', w1)
      | (Inr r, w1) \<Rightarrow> (r, w1))"

subsection \<open>Refresh token\<close>

text \<open>
  The body of the \<^verbatim>\<open>try\<close> block of \<^verbatim>\<open>/refresh_token\<close>.  \<^verbatim>\<open>userResult.rows[0]\<close> is
  undefined when no row has the id, and \<^verbatim>\<open>createAccessToken\<close> then throws a
  TypeError on reading \<^verbatim>\<open>user.id\<close>.
\<close>

definition refresh_token_try :: "config \<Rightarrow> token \<Rightarrow> nat \<Rightarrow> world \<Rightarrow> (error + response) \<times> world" where
  "refresh_token_try cfg t now w =
     (case jwt_verify t (REFRESH_TOKEN_SECRET cfg) now of
        Inl e \<Rightarrow> (Inl e, w)
      | Inr decoded \<Rightarrow>
          (case pool_query (SelectById (map_of decoded ''id'')) w of
             (Inl e, w1) \<Rightarrow> (Inl e, w1)
           | (Inr userResult, w1) \<Rightarrow>
               (case userResult of
                  [] \<Rightarrow> (Inl TypeError, w1)
                | u # rest \<Rightarrow>
                    (Inr \<lparr>status = 200, message = ''Access token refreshed'', user_info = None,
                          cookies = [(''accessToken'', createAccessToken cfg u now)]\<rparr>, w1))))"

definition refresh_token :: "config \<Rightarrow> token option \<Rightarrow> nat \<Rightarrow> world \<Rightarrow> response \<times> world" where
  "refresh_token cfg refreshToken now w =
     (if falsy refreshToken then (json 401 ''No refresh token provided'', w)
      else case refreshToken of
        None \<Rightarrow> (json 401 ''No refresh token provided'', w)
      | Some t \<Rightarrow>
          (case refresh_token_try cfg t now w of
             (Inl e, w1) \<Rightarrow> (json 401 ''Invalid or expired refresh token'', w1)
           | (Inr r, w1) \<Rightarrow> (r, w1)))"

section \<open>Example data\<close>

abbreviation example_config :: config where
  "example_config \<equiv> \<lparr>JWT_SECRET = ''a'', REFRESH_TOKEN_SECRET = ''r'', GOOGLE_CLIENT_ID = ''g''\<rparr>"

abbreviation alice :: user where
  "alice \<equiv> \<lparr>user_id = 1, name = ''Alice'', email = ''a@x.com'',
             password_hash = Some ''h1'', google_id = None\<rparr>"

abbreviation bob :: user where
  "bob \<equiv> \<lparr>user_id = 2, name = ''Bob'', email = ''b@x.com'',
           password_hash = None, google_id = Some ''g2''\<rparr>"

abbreviation example_world :: world where
  "example_world \<equiv> \<lparr>users = [alice, bob], next_id = 3, outages = []\<rparr>"

text \<open>
  A password capability for the examples: the hash \<open>h1\<close> belongs to the password
  \<open>pw1\<close>.  Like \<^verbatim>\<open>bcrypt.compare\<close>, which requires both of its arguments, it rejects
  when the row has no hash.
\<close>

abbreviation example_compare :: "string \<Rightarrow> string option \<Rightarrow> error + bool" where
  "example_compare \<equiv>
     (\<lambda>pw h. case h of None \<Rightarrow> Inl BcryptError | Some x \<Rightarrow> Inr (pw = ''pw1'' \<and> x = ''h1''))"

text \<open>A verification capability for the examples: it accepts the assertion \<open>ok\<close> only.\<close>

abbreviation example_verifyIdToken :: "id_payload \<Rightarrow> string \<Rightarrow> string \<Rightarrow> error + id_payload" where
  "example_verifyIdToken p \<equiv>
     (\<lambda>idToken audience. if idToken = ''ok'' then Inr p else Inl VerifyIdTokenError)"

section \<open>Token codec properties\<close>

text \<open>
  C1.  An access token minted for a user at time \<open>t0\<close> and presented to the access
  guard at time \<open>t1\<close> (both in milliseconds): strictly before the expiry embedded at
  mint time, fifteen minutes after the mint second, the guard passes on the claim
  \<open>id\<close>, \<open>email\<close>, \<open>name\<close> as minted, followed by the two timestamps the signing added;
  at the expiry and at every later time it answers 401.
\<close>

theorem verify_access_mint_access:
  "verifyAccessToken cfg (Some (createAccessToken cfg u t0)) t1 =
     (if t1 < (t0 div 1000 + 15 * 60) * 1000
      then Inr [(''id'', JNum (user_id u)), (''email'', JStr (email u)), (''name'', JStr (name u)),
                (''iat'', JNum (t0 div 1000)), (''exp'', JNum (t0 div 1000 + 15 * 60))]
      else Inl (json 401 ''Invalid or expired token''))"
proof -
  have "(t0 div 1000 + 900 \<le> t1 div 1000) = (\<not> t1 < (t0 div 1000 + 900) * 1000)"
    by (simp add: not_less less_eq_div_iff_mult_less_eq)
  then show ?thesis
    by (simp add: verifyAccessToken_def createAccessToken_def jwt_sign_def expires_15m_def)
qed

text \<open>
  Minted at 5250 ms, the token carries the expiry 905 s: it is accepted at 904999 ms
  and refused at 905000 ms.
\<close>

theorem verify_access_mint_access_witness:
  "verifyAccessToken example_config (Some (createAccessToken example_config alice 5250)) 904999 =
     Inr [(''id'', JNum 1), (''email'', JStr ''a@x.com''), (''name'', JStr ''Alice''),
          (''iat'', JNum 5), (''exp'', JNum 905)]
   \<and> verifyAccessToken example_config (Some (createAccessToken example_config alice 5250)) 905000 =
     Inl (json 401 ''Invalid or expired token'')"
  using verify_access_mint_access [of example_config alice 5250 904999]
    verify_access_mint_access [of example_config alice 5250 905000]
  by simp

text \<open>
  C2.  When the two signing secrets differ, a refresh token is refused by the access
  guard and an access token is refused by the refresh handler, at every time and for
  the same user in both payloads; the refresh handler then leaves the table alone.
\<close>

theorem signing_domain_separation:
  assumes "JWT_SECRET cfg \<noteq> REFRESH_TOKEN_SECRET cfg"
  shows "verifyAccessToken cfg (Some (createRefreshToken cfg u t0)) t1 =
           Inl (json 401 ''Invalid or expired token'')
       \<and> refresh_token cfg (Some (createAccessToken cfg u t0)) t1 w =
           (json 401 ''Invalid or expired refresh token'', w)"
  using assms
  by (simp add: verifyAccessToken_def refresh_token_def refresh_token_try_def
      createRefreshToken_def createAccessToken_def jwt_sign_def)

theorem signing_domain_separation_witness:
  "JWT_SECRET example_config \<noteq> REFRESH_TOKEN_SECRET example_config
   \<and> verifyAccessToken example_config (Some (createRefreshToken example_config alice 0)) 1000 =
       Inl (json 401 ''Invalid or expired token'')
   \<and> refresh_token example_config (Some (createAccessToken example_config alice 0)) 1000
         example_world =
       (json 401 ''Invalid or expired refresh token'', example_world)"
proof -
  have h: "JWT_SECRET example_config \<noteq> REFRESH_TOKEN_SECRET example_config"
    by simp
  show ?thesis
    using h signing_domain_separation [OF h, of alice 0 1000 example_world] by simp
qed

section \<open>Access guard\<close>

text \<open>
  C4, as stated, fails: a request without an access token and a request with a forged
  one are both refused with status 401, but with different messages.
\<close>

theorem access_guard_messages_differ:
  "verifyAccessToken example_config None 0 = Inl (json 401 ''Unauthorized'')
   \<and> verifyAccessToken example_config (Some (Garbage ''forged'')) 0 =
       Inl (json 401 ''Invalid or expired token'')
   \<and> message (json 401 ''Unauthorized'') \<noteq> message (json 401 ''Invalid or expired token'')"
  by (simp add: verifyAccessToken_def json_def)

text \<open>
  C4, amended.  Every refusal of the access guard has status 401, no user summary and
  no cookie; its message is \<open>Unauthorized\<close> when no token was presented and
  \<open>Invalid or expired token\<close> when a token was presented and did not verify.
\<close>

theorem access_guard_failure_shape:
  assumes "verifyAccessToken cfg accessToken now = Inl r"
  shows "status r = 401 \<and> user_info r = None \<and> cookies r = []
       \<and> message r = (if falsy accessToken then ''Unauthorized'' else ''Invalid or expired token'')"
  using assms
  by (auto simp add: verifyAccessToken_def json_def split: if_splits option.splits sum.splits)

theorem access_guard_failure_shape_witness:
  "verifyAccessToken example_config (Some (createAccessToken example_config alice 0)) 900000 =
     Inl (json 401 ''Invalid or expired token'')
   \<and> status (json 401 ''Invalid or expired token'') = 401
   \<and> message (json 401 ''Invalid or expired token'') = ''Invalid or expired token''
   \<and> verifyAccessToken example_config None 900000 = Inl (json 401 ''Unauthorized'')
   \<and> status (json 401 ''Unauthorized'') = 401
   \<and> message (json 401 ''Unauthorized'') = ''Unauthorized''"
proof -
  have a: "verifyAccessToken example_config (Some (createAccessToken example_config alice 0)) 900000 =
             Inl (json 401 ''Invalid or expired token'')"
    by (simp add: verifyAccessToken_def createAccessToken_def jwt_sign_def expires_15m_def)
  have b: "verifyAccessToken example_config None 900000 = Inl (json 401 ''Unauthorized'')"
    by (simp add: verifyAccessToken_def)
  show ?thesis
    using a b access_guard_failure_shape [OF a] access_guard_failure_shape [OF b]
    by (simp add: createAccessToken_def jwt_sign_def)
qed

section \<open>Account resolution\<close>

text \<open>The first two branches of the resolution, when the repository answers.\<close>

lemma resolve_external_found:
  assumes "outages w = []"
    and "filter (\<lambda>r. google_id r = Some (sub p)) (users w) = u # rest"
  shows "resolve_external p w = (Inr u, w)"
  using assms by (simp add: resolve_external_def)

lemma resolve_external_linked:
  assumes "outages w = []"
    and "filter (\<lambda>r. google_id r = Some (sub p)) (users w) = []"
    and "filter (\<lambda>r. email r = payload_email p) (users w) = u # rest"
  shows "resolve_external p w =
           (Inr u, w\<lparr>users := map (\<lambda>r. if user_id r = user_id u
                                      then r\<lparr>google_id := Some (sub p)\<rparr> else r) (users w)\<rparr>)"
  using assms by (simp add: resolve_external_def)

text \<open>Linking touches the rows with the given id only, and only their Google id.\<close>

lemma link_no_match:
  "\<forall>r\<in>set xs. user_id r \<noteq> i \<Longrightarrow>
   map (\<lambda>r. if user_id r = i then r\<lparr>google_id := Some g\<rparr> else r) xs = xs"
  by (induction xs) auto

lemma filter_email_link:
  "filter (\<lambda>r. email r = e) (map (\<lambda>r. if user_id r = i then r\<lparr>google_id := Some g\<rparr> else r) xs) =
   map (\<lambda>r. if user_id r = i then r\<lparr>google_id := Some g\<rparr> else r) (filter (\<lambda>r. email r = e) xs)"
  by (induction xs) auto

text \<open>
  In a table with distinct ids where nobody has the Google id \<open>g\<close>, linking \<open>g\<close> to
  the row \<open>u\<close> makes \<open>u\<close> the one row that a lookup by \<open>g\<close> finds.
\<close>

lemma filter_google_link:
  assumes "filter (\<lambda>r. google_id r = Some g) xs = []"
    and "distinct (map user_id xs)"
    and "u \<in> set xs"
  shows "filter (\<lambda>r. google_id r = Some g)
           (map (\<lambda>r. if user_id r = user_id u then r\<lparr>google_id := Some g\<rparr> else r) xs) =
         [u\<lparr>google_id := Some g\<rparr>]"
  using assms
proof (induction xs)
  case Nil
  then show ?case by simp
next
  case (Cons x xs)
  have none: "google_id x \<noteq> Some g" "filter (\<lambda>r. google_id r = Some g) xs = []"
    using Cons.prems(1) by (simp_all split: if_splits)
  show ?case
  proof (cases "x = u")
    case True
    have "\<forall>r\<in>set xs. user_id r \<noteq> user_id u"
      using Cons.prems(2) True by (auto simp: image_iff)
    then have "map (\<lambda>r. if user_id r = user_id u then r\<lparr>google_id := Some g\<rparr> else r) xs = xs"
      by (rule link_no_match)
    then show ?thesis using True none by simp
  next
    case False
    then have u: "u \<in> set xs" using Cons.prems(3) by simp
    then have "user_id x \<noteq> user_id u"
      using Cons.prems(2) by (auto simp: image_iff)
    moreover have "distinct (map user_id xs)"
      using Cons.prems(2) by simp
    ultimately show ?thesis using Cons.IH none u by simp
  qed
qed

text \<open>
  C5.  When the repository answers, the resolution is decided by two lookups in a
  fixed order.  If a row has the identity's Google id, the first such row is returned
  and the table is unchanged.  Otherwise, if a row has the identity's email, the
  Google id is set on the row with that id and the row found is returned (as it was
  selected).  Otherwise a row with the identity's name, email and Google id, a fresh
  id and no password hash is appended and returned.
\<close>

theorem resolve_external_precedence:
  assumes "outages w = []"
  shows "resolve_external p w =
     (case filter (\<lambda>r. google_id r = Some (sub p)) (users w) of
        u # rest \<Rightarrow> (Inr u, w)
      | [] \<Rightarrow>
          (case filter (\<lambda>r. email r = payload_email p) (users w) of
             u # rest \<Rightarrow>
               (Inr u, w\<lparr>users := map (\<lambda>r. if user_id r = user_id u
                                          then r\<lparr>google_id := Some (sub p)\<rparr> else r) (users w)\<rparr>)
           | [] \<Rightarrow>
               (Inr \<lparr>user_id = next_id w, name = payload_name p, email = payload_email p,
                     password_hash = None, google_id = Some (sub p)\<rparr>,
                w\<lparr>users := users w @
                      [\<lparr>user_id = next_id w, name = payload_name p, email = payload_email p,
                        password_hash = None, google_id = Some (sub p)\<rparr>],
                  next_id := Suc (next_id w)\<rparr>)))"
  using assms by (simp add: resolve_external_def split: list.splits)

text \<open>
  One identity for each branch.  The first has Bob's Google id and Alice's email: the
  Google id decides, and Bob is returned.  The second has a new Google id and Alice's
  email: Alice is linked.  The third is unknown: a third row is created.
\<close>

theorem resolve_external_precedence_witness:
  "outages example_world = []
   \<and> resolve_external \<lparr>sub = ''g2'', payload_email = ''a@x.com'', payload_name = ''Al''\<rparr>
        example_world = (Inr bob, example_world)
   \<and> resolve_external \<lparr>sub = ''g9'', payload_email = ''a@x.com'', payload_name = ''Al''\<rparr>
        example_world =
       (Inr alice, \<lparr>users = [alice\<lparr>google_id := Some ''g9''\<rparr>, bob], next_id = 3, outages = []\<rparr>)
   \<and> resolve_external \<lparr>sub = ''g9'', payload_email = ''c@x.com'', payload_name = ''Carol''\<rparr>
        example_world =
       (Inr \<lparr>user_id = 3, name = ''Carol'', email = ''c@x.com'', password_hash = None,
             google_id = Some ''g9''\<rparr>,
        \<lparr>users = [alice, bob,
                  \<lparr>user_id = 3, name = ''Carol'', email = ''c@x.com'', password_hash = None,
                    google_id = Some ''g9''\<rparr>],
          next_id = 4, outages = []\<rparr>)"
proof -
  have h: "outages example_world = []"
    by simp
  show ?thesis
    using h
      resolve_external_precedence [OF h,
        of "\<lparr>sub = ''g2'', payload_email = ''a@x.com'', payload_name = ''Al''\<rparr>"]
      resolve_external_precedence [OF h,
        of "\<lparr>sub = ''g9'', payload_email = ''a@x.com'', payload_name = ''Al''\<rparr>"]
      resolve_external_precedence [OF h,
        of "\<lparr>sub = ''g9'', payload_email = ''c@x.com'', payload_name = ''Carol''\<rparr>"]
    by simp
qed

text \<open>
  C7.  In a table with distinct ids and exactly one row for the identity's email,
  with the repository answering, two resolutions of the same identity in sequence
  return the same account: the same id, name, email and password hash (the second
  call reads the row after the link, so only the Google id of the two snapshots can
  differ).  The second call leaves the table as the first left it, no row is added,
  and there is still exactly one row for that email.
\<close>

theorem resolve_external_idempotent:
  assumes up: "outages w = []"
    and ids: "distinct (map user_id (users w))"
    and one: "length (filter (\<lambda>r. email r = payload_email p) (users w)) = 1"
  shows "\<exists>u1 u2 w1.
           resolve_external p w = (Inr u1, w1) \<and>
           resolve_external p w1 = (Inr u2, w1) \<and>
           user_id u2 = user_id u1 \<and> name u2 = name u1 \<and> email u2 = email u1 \<and>
           password_hash u2 = password_hash u1 \<and>
           length (users w1) = length (users w) \<and>
           length (filter (\<lambda>r. email r = payload_email p) (users w1)) = 1"
proof (cases "filter (\<lambda>r. google_id r = Some (sub p)) (users w)")
  case (Cons u rest)
  then have "resolve_external p w = (Inr u, w)"
    using up by (rule resolve_external_found [rotated])
  then show ?thesis using one by auto
next
  case Nil
  from one obtain u where e: "filter (\<lambda>r. email r = payload_email p) (users w) = [u]"
    by (cases "filter (\<lambda>r. email r = payload_email p) (users w)") auto
  let ?w1 = "w\<lparr>users := map (\<lambda>r. if user_id r = user_id u
                                  then r\<lparr>google_id := Some (sub p)\<rparr> else r) (users w)\<rparr>"
  have r1: "resolve_external p w = (Inr u, ?w1)"
    using up Nil e by (rule resolve_external_linked)
  have "u \<in> set (filter (\<lambda>r. email r = payload_email p) (users w))"
    using e by simp
  then have mem: "u \<in> set (users w)"
    by simp
  have f: "filter (\<lambda>r. google_id r = Some (sub p)) (users ?w1) = [u\<lparr>google_id := Some (sub p)\<rparr>]"
    using filter_google_link [OF Nil ids mem] by simp
  have up1: "outages ?w1 = []"
    using up by simp
  have r2: "resolve_external p ?w1 = (Inr (u\<lparr>google_id := Some (sub p)\<rparr>), ?w1)"
    using up1 f by (rule resolve_external_found)
  have cnt: "length (filter (\<lambda>r. email r = payload_email p) (users ?w1)) = 1"
    using e by (simp add: filter_email_link)
  show ?thesis using r1 r2 cnt by simp
qed

text \<open>Alice, who signed up with a password, signs in with Google twice.\<close>

theorem resolve_external_idempotent_witness:
  "outages example_world = []
   \<and> distinct (map user_id (users example_world))
   \<and> length (filter (\<lambda>r. email r = ''a@x.com'') (users example_world)) = 1
   \<and> (\<exists>u1 u2 w1.
         resolve_external \<lparr>sub = ''g9'', payload_email = ''a@x.com'', payload_name = ''Al''\<rparr>
           example_world = (Inr u1, w1) \<and>
         resolve_external \<lparr>sub = ''g9'', payload_email = ''a@x.com'', payload_name = ''Al''\<rparr>
           w1 = (Inr u2, w1) \<and>
         user_id u2 = user_id u1 \<and> name u2 = name u1 \<and> email u2 = email u1 \<and>
         password_hash u2 = password_hash u1 \<and>
         length (users w1) = length (users example_world) \<and>
         length (filter (\<lambda>r. email r = ''a@x.com'') (users w1)) = 1)"
proof -
  have up: "outages example_world = []"
    by simp
  have ids: "distinct (map user_id (users example_world))"
    by simp
  have one: "length (filter (\<lambda>r. email r =
      payload_email \<lparr>sub = ''g9'', payload_email = ''a@x.com'', payload_name = ''Al''\<rparr>)
      (users example_world)) = 1"
    by simp
  show ?thesis
    using up ids one resolve_external_idempotent [OF up ids one] by simp
qed

section \<open>Signin\<close>

text \<open>
  The part of the enumeration resistance that the handler has: with the repository
  answering, a signin for an email that no row has and a signin for a row whose stored
  hash the password capability reports as not matching get the same response, status
  400 and the message \<open>Invalid email or password\<close>.
\<close>

lemma signin_mismatch_as_unknown:
  assumes "outages w = []"
    and "fst (run_query (SelectByEmail unknown) w) = []"
    and "fst (run_query (SelectByEmail known) w) = u # rest"
    and "bcrypt_compare wrong (password_hash u) = Inr False"
  shows "signin bcrypt_compare cfg unknown pw now w = (json 400 ''Invalid email or password'', w)
       \<and> signin bcrypt_compare cfg known wrong now w = (json 400 ''Invalid email or password'', w)"
  using assms by (simp add: signin_def signin_try_def)

text \<open>
  The part it misses: when the password capability rejects the comparison, the
  exception reaches the \<^verbatim>\<open>catch\<close> and the answer for the existing email is status 500
  with the message \<open>Server error\<close>, which no unknown email gets.
\<close>

lemma signin_rejected_compare:
  assumes "outages w = []"
    and "fst (run_query (SelectByEmail known) w) = u # rest"
    and "bcrypt_compare pw (password_hash u) = Inl e"
  shows "signin bcrypt_compare cfg known pw now w = (json 500 ''Server error'', w)"
  using assms by (simp add: signin_def signin_try_def)

text \<open>
  C8.  Carol signs in with Google for the first time: the handler inserts her row
  without a password hash.  A signin with her email and any password then has no hash
  to compare with, the password capability rejects, and the answer is status 500 with
  the message \<open>Server error\<close>; a signin with an email that no row has is answered
  with status 400 and the message \<open>Invalid email or password\<close>.  The two responses
  tell an existing email from an unknown one.
\<close>

theorem signin_google_only_account_distinguished:
  "snd (auth_google
          (example_verifyIdToken \<lparr>sub = ''g3'', payload_email = ''c@x.com'', payload_name = ''Carol''\<rparr>)
          example_config ''ok'' 0 example_world) =
     \<lparr>users = [alice, bob,
               \<lparr>user_id = 3, name = ''Carol'', email = ''c@x.com'', password_hash = None,
                 google_id = Some ''g3''\<rparr>],
       next_id = 4, outages = []\<rparr>
   \<and> signin example_compare example_config ''c@x.com'' ''guess'' 0
       \<lparr>users = [alice, bob,
                 \<lparr>user_id = 3, name = ''Carol'', email = ''c@x.com'', password_hash = None,
                   google_id = Some ''g3''\<rparr>],
         next_id = 4, outages = []\<rparr> =
     (json 500 ''Server error'',
      \<lparr>users = [alice, bob,
                \<lparr>user_id = 3, name = ''Carol'', email = ''c@x.com'', password_hash = None,
                  google_id = Some ''g3''\<rparr>],
        next_id = 4, outages = []\<rparr>)
   \<and> signin example_compare example_config ''nobody@x.com'' ''guess'' 0
       \<lparr>users = [alice, bob,
                 \<lparr>user_id = 3, name = ''Carol'', email = ''c@x.com'', password_hash = None,
                   google_id = Some ''g3''\<rparr>],
         next_id = 4, outages = []\<rparr> =
     (json 400 ''Invalid email or password'',
      \<lparr>users = [alice, bob,
                \<lparr>user_id = 3, name = ''Carol'', email = ''c@x.com'', password_hash = None,
                  google_id = Some ''g3''\<rparr>],
        next_id = 4, outages = []\<rparr>)
   \<and> json 500 ''Server error'' \<noteq> json 400 ''Invalid email or password''"
  by (simp add: auth_google_def auth_google_try_def resolve_external_def signin_def
      signin_try_def json_def)

section \<open>Refresh\<close>

text \<open>
  C3.  Bob's refresh token, minted at time 0, still verifies under the refresh secret
  at 1000 ms.  Presented when the table has no row with his id, it is answered with
  status 401 and the message \<open>Invalid or expired refresh token\<close>, which is also the
  answer to a forged token: the missing account is not reported as such.
\<close>

theorem refresh_missing_account_as_invalid_token:
  "jwt_verify (createRefreshToken example_config bob 0) (REFRESH_TOKEN_SECRET example_config) 1000 =
     Inr [(''id'', JNum 2), (''iat'', JNum 0), (''exp'', JNum 604800)]
   \<and> refresh_token example_config (Some (createRefreshToken example_config bob 0)) 1000
        \<lparr>users = [alice], next_id = 3, outages = []\<rparr> =
       (json 401 ''Invalid or expired refresh token'', \<lparr>users = [alice], next_id = 3, outages = []\<rparr>)
   \<and> refresh_token example_config (Some (Garbage ''forged'')) 1000
        \<lparr>users = [alice], next_id = 3, outages = []\<rparr> =
       (json 401 ''Invalid or expired refresh token'', \<lparr>users = [alice], next_id = 3, outages = []\<rparr>)"
  by (simp add: refresh_token_def refresh_token_try_def createRefreshToken_def jwt_sign_def
      expires_7d_def)

text \<open>
  C6.  A refresh token minted for the row \<open>u\<close> at time \<open>t0\<close> carries the id of \<open>u\<close>
  and the two timestamps, nothing else.  Presented at a time \<open>t1\<close> before its expiry,
  with the repository answering and the lookup by that id returning the row \<open>cur\<close>
  first, the handler answers 200 and sets an access token signed at \<open>t1\<close> whose
  claim is the name and email of \<open>cur\<close>, the row as it is at refresh time, whatever
  name and email \<open>u\<close> had.
\<close>

theorem refresh_reads_current_record:
  assumes "outages w = []"
    and "fst (run_query (SelectById (Some (JNum (user_id u)))) w) = cur # rest"
    and "t1 < (t0 div 1000 + 7 * 24 * 60 * 60) * 1000"
  shows "createRefreshToken cfg u t0 =
           Signed [(''id'', JNum (user_id u)), (''iat'', JNum (t0 div 1000)),
                   (''exp'', JNum (t0 div 1000 + 7 * 24 * 60 * 60))] (REFRESH_TOKEN_SECRET cfg)
       \<and> refresh_token cfg (Some (createRefreshToken cfg u t0)) t1 w =
           (\<lparr>status = 200, message = ''Access token refreshed'', user_info = None,
             cookies = [(''accessToken'',
               Signed [(''id'', JNum (user_id cur)), (''email'', JStr (email cur)),
                       (''name'', JStr (name cur)), (''iat'', JNum (t1 div 1000)),
                       (''exp'', JNum (t1 div 1000 + 15 * 60))] (JWT_SECRET cfg))]\<rparr>, w)"
proof -
  have "\<not> (t0 div 1000 + 604800 \<le> t1 div 1000)"
    using assms(3) by (simp add: not_le div_less_iff_less_mult)
  then show ?thesis
    using assms(1,2)
    by (simp add: refresh_token_def refresh_token_try_def createRefreshToken_def
        createAccessToken_def jwt_sign_def expires_7d_def expires_15m_def)
qed

text \<open>
  Alice's refresh token is minted at time 0; then her row is renamed to \<open>Alicia\<close> with
  a new email; a refresh at 60000 ms yields an access token for \<open>Alicia\<close>.
\<close>

theorem refresh_reads_current_record_witness:
  "outages \<lparr>users = [alice\<lparr>name := ''Alicia'', email := ''al@x.com''\<rparr>, bob], next_id = 3,
            outages = []\<rparr> = []
   \<and> fst (run_query (SelectById (Some (JNum (user_id alice))))
        \<lparr>users = [alice\<lparr>name := ''Alicia'', email := ''al@x.com''\<rparr>, bob], next_id = 3,
          outages = []\<rparr>) = [alice\<lparr>name := ''Alicia'', email := ''al@x.com''\<rparr>]
   \<and> (60000::nat) < (0 div 1000 + 7 * 24 * 60 * 60) * 1000
   \<and> createRefreshToken example_config alice 0 =
       Signed [(''id'', JNum 1), (''iat'', JNum 0), (''exp'', JNum 604800)] ''r''
   \<and> refresh_token example_config (Some (createRefreshToken example_config alice 0)) 60000
        \<lparr>users = [alice\<lparr>name := ''Alicia'', email := ''al@x.com''\<rparr>, bob], next_id = 3,
          outages = []\<rparr> =
       (\<lparr>status = 200, message = ''Access token refreshed'', user_info = None,
         cookies = [(''accessToken'',
           Signed [(''id'', JNum 1), (''email'', JStr ''al@x.com''), (''name'', JStr ''Alicia''),
                   (''iat'', JNum 60), (''exp'', JNum 960)] ''a'')]\<rparr>,
        \<lparr>users = [alice\<lparr>name := ''Alicia'', email := ''al@x.com''\<rparr>, bob], next_id = 3,
          outages = []\<rparr>)"
proof -
  let ?w = "\<lparr>users = [alice\<lparr>name := ''Alicia'', email := ''al@x.com''\<rparr>, bob], next_id = 3,
             outages = []\<rparr>"
  have a: "outages ?w = []"
    by simp
  have b: "fst (run_query (SelectById (Some (JNum (user_id alice)))) ?w) =
             alice\<lparr>name := ''Alicia'', email := ''al@x.com''\<rparr> # []"
    by simp
  have c: "(60000::nat) < (0 div 1000 + 7 * 24 * 60 * 60) * 1000"
    by simp
  show ?thesis
    using a b c refresh_reads_current_record [OF a b c, of example_config]
    by (simp add: createRefreshToken_def jwt_sign_def expires_7d_def)
qed

section \<open>Google sign-in failures\<close>

text \<open>
  C10.  The Google handler has two outcomes only: the 200 response with the session
  of some row, or status 401 with the message \<open>Google authentication failed\<close>.  It
  answers the latter when the verification capability rejects the assertion (the
  table is then untouched), when the repository rejects the lookup by Google id, and,
  for an identity that no row is linked to, when the repository rejects the lookup by
  email or the update or insert that follows it.  No repository failure gets a
  response of its own.
\<close>

theorem auth_google_failures_collapse:
  "(fst (auth_google verifyIdToken cfg idToken now w) = json 401 ''Google authentication failed''
      \<or> (\<exists>u. fst (auth_google verifyIdToken cfg idToken now w) =
                session_response ''Google login successful'' cfg u now))
   \<and> (\<forall>e. verifyIdToken idToken (GOOGLE_CLIENT_ID cfg) = Inl e \<longrightarrow>
          auth_google verifyIdToken cfg idToken now w =
            (json 401 ''Google authentication failed'', w))
   \<and> (\<forall>bs. outages w = True # bs \<longrightarrow>
          fst (auth_google verifyIdToken cfg idToken now w) =
            json 401 ''Google authentication failed'')
   \<and> (\<forall>p bs. verifyIdToken idToken (GOOGLE_CLIENT_ID cfg) = Inr p \<and>
             filter (\<lambda>r. google_id r = Some (sub p)) (users w) = [] \<and>
             (outages w = False # True # bs \<or> outages w = False # False # True # bs) \<longrightarrow>
          fst (auth_google verifyIdToken cfg idToken now w) =
            json 401 ''Google authentication failed'')"
proof (intro conjI allI impI)
  show "fst (auth_google verifyIdToken cfg idToken now w) = json 401 ''Google authentication failed''
      \<or> (\<exists>u. fst (auth_google verifyIdToken cfg idToken now w) =
                session_response ''Google login successful'' cfg u now)"
    by (simp add: auth_google_def auth_google_try_def split: sum.splits prod.splits) blast
next
  fix e
  assume "verifyIdToken idToken (GOOGLE_CLIENT_ID cfg) = Inl e"
  then show "auth_google verifyIdToken cfg idToken now w =
      (json 401 ''Google authentication failed'', w)"
    by (simp add: auth_google_def auth_google_try_def)
next
  fix bs
  assume "outages w = True # bs"
  then have "\<And>p. resolve_external p w = (Inl QueryError, w\<lparr>outages := bs\<rparr>)"
    by (simp add: resolve_external_def)
  then show "fst (auth_google verifyIdToken cfg idToken now w) =
      json 401 ''Google authentication failed''"
    by (simp add: auth_google_def auth_google_try_def split: sum.splits prod.splits)
next
  fix p bs
  assume a: "verifyIdToken idToken (GOOGLE_CLIENT_ID cfg) = Inr p \<and>
             filter (\<lambda>r. google_id r = Some (sub p)) (users w) = [] \<and>
             (outages w = False # True # bs \<or> outages w = False # False # True # bs)"
  then have "\<exists>w1. resolve_external p w = (Inl QueryError, w1)"
    by (auto simp add: resolve_external_def split: list.splits)
  then show "fst (auth_google verifyIdToken cfg idToken now w) =
      json 401 ''Google authentication failed''"
    using a by (auto simp add: auth_google_def auth_google_try_def)
qed

text \<open>
  A rejected assertion; then an accepted assertion for a new identity with Alice's
  email, with the repository failing at the first, the second and the third query.
\<close>

theorem auth_google_failures_collapse_witness:
  "auth_google
       (example_verifyIdToken \<lparr>sub = ''g9'', payload_email = ''a@x.com'', payload_name = ''Al''\<rparr>)
       example_config ''bad'' 0 example_world =
     (json 401 ''Google authentication failed'', example_world)
   \<and> fst (auth_google
       (example_verifyIdToken \<lparr>sub = ''g9'', payload_email = ''a@x.com'', payload_name = ''Al''\<rparr>)
       example_config ''ok'' 0 (example_world\<lparr>outages := [True]\<rparr>)) =
     json 401 ''Google authentication failed''
   \<and> fst (auth_google
       (example_verifyIdToken \<lparr>sub = ''g9'', payload_email = ''a@x.com'', payload_name = ''Al''\<rparr>)
       example_config ''ok'' 0 (example_world\<lparr>outages := [False, True]\<rparr>)) =
     json 401 ''Google authentication failed''
   \<and> fst (auth_google
       (example_verifyIdToken \<lparr>sub = ''g9'', payload_email = ''a@x.com'', payload_name = ''Al''\<rparr>)
       example_config ''ok'' 0 (example_world\<lparr>outages := [False, False, True]\<rparr>)) =
     json 401 ''Google authentication failed''"
  using
    auth_google_failures_collapse
      [of "example_verifyIdToken \<lparr>sub = ''g9'', payload_email = ''a@x.com'', payload_name = ''Al''\<rparr>"
          example_config "''bad''" 0 example_world]
    auth_google_failures_collapse
      [of "example_verifyIdToken \<lparr>sub = ''g9'', payload_email = ''a@x.com'', payload_name = ''Al''\<rparr>"
          example_config "''ok''" 0 "example_world\<lparr>outages := [True]\<rparr>"]
    auth_google_failures_collapse
      [of "example_verifyIdToken \<lparr>sub = ''g9'', payload_email = ''a@x.com'', payload_name = ''Al''\<rparr>"
          example_config "''ok''" 0 "example_world\<lparr>outages := [False, True]\<rparr>"]
    auth_google_failures_collapse
      [of "example_verifyIdToken \<lparr>sub = ''g9'', payload_email = ''a@x.com'', payload_name = ''Al''\<rparr>"
          example_config "''ok''" 0 "example_world\<lparr>outages := [False, False, True]\<rparr>"]
  by simp

end
